theory Spec2Isabelle
  imports Complex_Main
begin

section \<open>JavaScript numbers\<close>

text \<open>
  The profile values of \<^verbatim>\<open>api/generate-images.ts\<close> are JavaScript numbers. The program
  does two things with them: it compares them with \<^verbatim>\<open>>\<close> and it converts them
  to text in a template literal. A finite number is represented by the decimal that
  JavaScript prints for it (the shortest one that reads back as the same number), as
  mantissa and exponent: \<open>Finite m e\<close> stands for \<open>m * 10 ^ e\<close>, so \<open>12.5\<close> is
  \<open>Finite 125 (- 1)\<close> and \<open>- 1\<close> is \<open>Finite (- 1) 0\<close>. Different numbers have
  different such decimals, in the same order, so the numbers compare as these decimals
  do. The decimal is the number itself for an integer of magnitude up to \<open>2 ^ 53\<close> and
  for a short decimal such as \<open>12.5\<close>; it is an integer exactly when the number is one.
  Both zeros are \<open>Finite 0 e\<close>: the program cannot tell them apart.
\<close>

datatype number = NaN | PosInfinity | NegInfinity | Finite int int

definition mathematical_value :: "int \<Rightarrow> int \<Rightarrow> rat" where
  "mathematical_value m e =
     (if 0 \<le> e then of_int m * 10 ^ nat e else of_int m / 10 ^ nat (- e))"

text \<open>The operator \<^verbatim>\<open>a > b\<close> on numbers: every comparison with NaN is false.\<close>

fun gt :: "number \<Rightarrow> number \<Rightarrow> bool" where
  "gt NaN b = False"
| "gt a NaN = False"
| "gt PosInfinity PosInfinity = False"
| "gt PosInfinity b = True"
| "gt a PosInfinity = False"
| "gt NegInfinity b = False"
| "gt a NegInfinity = True"
| "gt (Finite m e) (Finite m' e') = (mathematical_value m' e' < mathematical_value m e)"

text \<open>The operator \<^verbatim>\<open>a <= b\<close> on numbers, used to state properties only.\<close>

fun lte :: "number \<Rightarrow> number \<Rightarrow> bool" where
  "lte NaN b = False"
| "lte a NaN = False"
| "lte a PosInfinity = True"
| "lte PosInfinity b = False"
| "lte NegInfinity b = True"
| "lte a NegInfinity = False"
| "lte (Finite m e) (Finite m' e') = (mathematical_value m e \<le> mathematical_value m' e')"

subsection \<open>Number to string\<close>

definition digit_char :: "nat \<Rightarrow> char" where
  "digit_char d = ''0123456789'' ! d"

function digits_of :: "nat \<Rightarrow> string" where
  "digits_of n = (if n < 10 then [digit_char n] else digits_of (n div 10) @ [digit_char (n mod 10)])"
  by pat_completeness auto
termination
  by (relation "measure id") auto

declare digits_of.simps [simp del]

text \<open>
  \<open>Number::toString\<close> of ECMA-262 in radix 10. The standard takes the integers
  \<open>n\<close>, \<open>k\<close> and \<open>s\<close> with \<open>k\<close> as small as possible such that the number is
  \<open>s * 10 ^ (n - k)\<close> and \<open>s\<close> has \<open>k\<close> digits: here \<open>s\<close> is the mantissa without its
  trailing zeros.
\<close>

definition significant :: "nat \<Rightarrow> string" where
  "significant m = rev (dropWhile (\<lambda>c. c = CHR ''0'') (rev (digits_of m)))"

definition unsigned_to_string :: "nat \<Rightarrow> int \<Rightarrow> string" where
  "unsigned_to_string m e =
     (let s = significant m;
          k = int (length s);
          n = e + int (length (digits_of m))
      in if k \<le> n \<and> n \<le> 21 then s @ replicate (nat (n - k)) CHR ''0''
         else if 0 < n \<and> n \<le> 21 then take (nat n) s @ ''.'' @ drop (nat n) s
         else if - 6 < n \<and> n \<le> 0 then ''0.'' @ replicate (nat (- n)) CHR ''0'' @ s
         else (if k = 1 then s else take 1 s @ ''.'' @ drop 1 s)
              @ ''e'' @ (if n - 1 < 0 then ''-'' else ''+'') @ digits_of (nat \<bar>n - 1\<bar>))"

fun number_to_string :: "number \<Rightarrow> string" where
  "number_to_string NaN = ''NaN''"
| "number_to_string PosInfinity = ''Infinity''"
| "number_to_string NegInfinity = ''-Infinity''"
| "number_to_string (Finite m e) =
     (if m = 0 then ''0''
      else if m < 0 then ''-'' @ unsigned_to_string (nat (- m)) e
      else unsigned_to_string (nat m) e)"

section \<open>The drawing surface\<close>

text \<open>
  The \<^verbatim>\<open>canvas\<close> package is a collaborator of the program. Its 2D context is modelled
  as the state the program writes (text and shadow attributes) together with the list of
  what has been painted, each painted text with the attributes in force when it was
  painted.
\<close>

record image =
  width :: nat
  height :: nat
  pixels :: "nat list"

record painted =
  painted_text :: string
  painted_x :: int
  painted_y :: int
  painted_font :: string
  painted_fillStyle :: string
  painted_textAlign :: string
  painted_textBaseline :: string
  painted_shadowColor :: string
  painted_shadowBlur :: int
  painted_shadowOffsetX :: int
  painted_shadowOffsetY :: int

datatype draw_op = DrawImage image int int | FillText painted

record context2d =
  canvas_width :: nat
  canvas_height :: nat
  font :: string
  fillStyle :: string
  textAlign :: string
  textBaseline :: string
  shadowColor :: string
  shadowBlur :: int
  shadowOffsetX :: int
  shadowOffsetY :: int
  drawn :: "draw_op list"

text \<open>\<^verbatim>\<open>createCanvas(w, h).getContext('2d')\<close>: an empty surface with the default attributes.\<close>

definition createCanvas :: "nat \<Rightarrow> nat \<Rightarrow> context2d" where
  "createCanvas w h =
     \<lparr>canvas_width = w, canvas_height = h, font = ''10px sans-serif'',
      fillStyle = ''#000000'', textAlign = ''start'', textBaseline = ''alphabetic'',
      shadowColor = ''rgba(0, 0, 0, 0)'', shadowBlur = 0, shadowOffsetX = 0,
      shadowOffsetY = 0, drawn = []\<rparr>"

definition drawImage :: "context2d \<Rightarrow> image \<Rightarrow> int \<Rightarrow> int \<Rightarrow> context2d" where
  "drawImage ctx img dx dy = ctx\<lparr>drawn := drawn ctx @ [DrawImage img dx dy]\<rparr>"

text \<open>
  A coordinate is \<open>None\<close> when the program passes \<^verbatim>\<open>undefined\<close>, which the canvas reads
  as NaN. \<^verbatim>\<open>fillText\<close> returns without painting when a coordinate is not finite.
\<close>

definition fillText :: "context2d \<Rightarrow> string \<Rightarrow> int option \<Rightarrow> int option \<Rightarrow> context2d" where
  "fillText ctx t x y =
     (case (x, y) of
        (Some px, Some py) \<Rightarrow>
          ctx\<lparr>drawn := drawn ctx @
            [FillText \<lparr>painted_text = t, painted_x = px, painted_y = py,
               painted_font = font ctx, painted_fillStyle = fillStyle ctx,
               painted_textAlign = textAlign ctx, painted_textBaseline = textBaseline ctx,
               painted_shadowColor = shadowColor ctx, painted_shadowBlur = shadowBlur ctx,
               painted_shadowOffsetX = shadowOffsetX ctx,
               painted_shadowOffsetY = shadowOffsetY ctx\<rparr>]\<rparr>
      | _ \<Rightarrow> ctx)"

text \<open>
  The \<^verbatim>\<open>textAlign\<close> setter ignores a value that is not an alignment keyword; the
  program passes either a keyword or \<^verbatim>\<open>undefined\<close> (\<open>None\<close>).
\<close>

definition set_textAlign :: "context2d \<Rightarrow> string option \<Rightarrow> context2d" where
  "set_textAlign ctx a = (case a of None \<Rightarrow> ctx | Some v \<Rightarrow> ctx\<lparr>textAlign := v\<rparr>)"

definition drawTextWithShadow ::
  "context2d \<Rightarrow> string \<Rightarrow> int option \<Rightarrow> int option \<Rightarrow> string \<Rightarrow> string \<Rightarrow> string option \<Rightarrow> string \<Rightarrow> context2d"
where
  "drawTextWithShadow ctx t x y fnt fill align baseline =
     (let ctx = ctx\<lparr>font := fnt\<rparr>;
          ctx = ctx\<lparr>fillStyle := fill\<rparr>;
          ctx = set_textAlign ctx align;
          ctx = ctx\<lparr>textBaseline := baseline\<rparr>;
          ctx = ctx\<lparr>shadowColor := ''rgba(0, 0, 0, 0.8)''\<rparr>;
          ctx = ctx\<lparr>shadowBlur := 10\<rparr>;
          ctx = ctx\<lparr>shadowOffsetX := 0\<rparr>;
          ctx = ctx\<lparr>shadowOffsetY := 0\<rparr>;
          ctx = fillText ctx t x y;
          ctx = ctx\<lparr>shadowColor := ''transparent''\<rparr>;
          ctx = ctx\<lparr>shadowBlur := 0\<rparr>
      in ctx)"

section \<open>Property lookup in an object literal\<close>

text \<open>
  \<^verbatim>\<open>positions[name]\<close> on an object literal finds the literal's own properties, then
  the members every object inherits from \<^verbatim>\<open>Object.prototype\<close> (functions, and the
  prototype itself under \<^verbatim>\<open>__proto__\<close>), and is \<^verbatim>\<open>undefined\<close> otherwise. An inherited
  member is truthy and has no \<^verbatim>\<open>x\<close>, \<^verbatim>\<open>y\<close> or \<^verbatim>\<open>align\<close> property.
\<close>

datatype 'a lookup = Own 'a | Inherited | Absent

definition object_prototype_members :: "string list" where
  "object_prototype_members =
     [''constructor'', ''__defineGetter__'', ''__defineSetter__'', ''hasOwnProperty'',
      ''__lookupGetter__'', ''__lookupSetter__'', ''isPrototypeOf'',
      ''propertyIsEnumerable'', ''toString'', ''valueOf'', ''__proto__'',
      ''toLocaleString'']"

definition property :: "(string \<times> 'a) list \<Rightarrow> string \<Rightarrow> 'a lookup" where
  "property literal name =
     (case map_of literal name of
        Some v \<Rightarrow> Own v
      | None \<Rightarrow> if name \<in> set object_prototype_members then Inherited else Absent)"

section \<open>Errors and the environment\<close>

text \<open>
  A thrown value is an \<^verbatim>\<open>Error\<close> instance with its message, or anything else, kept as
  what \<^verbatim>\<open>String(err)\<close> gives.
\<close>

datatype thrown = ErrorObj string | NonError string

text \<open>\<^verbatim>\<open>err instanceof Error ? err.message : String(err)\<close>\<close>

fun thrown_message :: "thrown \<Rightarrow> string" where
  "thrown_message (ErrorObj m) = m"
| "thrown_message (NonError s) = s"

text \<open>
  What the program takes from outside: the image behind a URL (or the failure of the
  load), the PNG encoding of a surface as a data URI, the engine's wording of the
  TypeError raised when the named expression is destructured while undefined or null,
  and which of the two renders rejects first when both reject.
\<close>

record env =
  loadImage :: "string \<Rightarrow> thrown + image"
  toDataURL :: "context2d \<Rightarrow> string"
  typeErrorMessage :: "string \<Rightarrow> string"
  animalRejectsFirst :: bool

text \<open>The effects visible from outside: the image loads started and the console.\<close>

record world =
  requested :: "string list"
  console :: "(string \<times> thrown) list"

section \<open>The animal renderer\<close>

text \<open>
  A profile object is represented by what \<^verbatim>\<open>Object.entries\<close> returns for it: its own
  properties as pairs of key and value, in the object's property order. The TypeScript
  types declare every value a number; values of other types are outside this model.
\<close>

type_synonym entries = "(string \<times> number) list"

text \<open>The first loop of \<^verbatim>\<open>generateAnimalImage\<close>, on \<open>(highestAnimalName, maxPercentage)\<close>.\<close>

fun highest_loop :: "entries \<Rightarrow> string option \<times> number \<Rightarrow> string option \<times> number" where
  "highest_loop [] acc = acc"
| "highest_loop ((name, percentage) # rest) (highestAnimalName, maxPercentage) =
     (if gt percentage maxPercentage
      then highest_loop rest (Some name, percentage)
      else highest_loop rest (highestAnimalName, maxPercentage))"

definition fontName :: string where
  "fontName = ''sans-serif''"

definition normalFontSize :: number where
  "normalFontSize = Finite 36 0"

definition highestFontSize :: number where
  "highestFontSize = Finite 40 0"

definition normalColor :: string where
  "normalColor = ''#FFFFFF''"

definition highestColor :: string where
  "highestColor = ''#FFED00''"

definition animal_positions :: "(string \<times> int \<times> int) list" where
  "animal_positions =
     [(''lobo'', (120, 280)),
      (''aguia'', (420, 280)),
      (''tubarao'', (120, 630)),
      (''gato'', (420, 630))]"

text \<open>
  The second loop. Destructuring \<^verbatim>\<open>positions[name]\<close> throws a TypeError when the lookup
  is undefined, and binds \<^verbatim>\<open>x\<close> and \<^verbatim>\<open>y\<close> to undefined on an inherited member.
\<close>

fun animal_draw_loop :: "env \<Rightarrow> string option \<Rightarrow> entries \<Rightarrow> context2d \<Rightarrow> thrown + context2d" where
  "animal_draw_loop env highestAnimalName [] ctx = Inr ctx"
| "animal_draw_loop env highestAnimalName ((name, percentage) # rest) ctx =
     (let isHighest = (Some name = highestAnimalName);
          fontSize = (if isHighest then highestFontSize else normalFontSize);
          color = (if isHighest then highestColor else normalColor);
          fnt = ''bold '' @ number_to_string fontSize @ ''px '' @ fontName;
          t = number_to_string percentage @ ''%''
      in case property animal_positions name of
           Absent \<Rightarrow> Inl (ErrorObj (typeErrorMessage env ''positions[name]''))
         | Inherited \<Rightarrow>
             animal_draw_loop env highestAnimalName rest
               (drawTextWithShadow ctx t None None fnt color (Some ''right'') ''middle'')
         | Own (x, y) \<Rightarrow>
             animal_draw_loop env highestAnimalName rest
               (drawTextWithShadow ctx t (Some x) (Some y) fnt color (Some ''right'') ''middle''))"

text \<open>The body of the \<^verbatim>\<open>try\<close> block from the loaded image to the finished surface.\<close>

definition animal_surface :: "env \<Rightarrow> image \<Rightarrow> entries \<Rightarrow> thrown + context2d" where
  "animal_surface env img data =
     (let ctx = createCanvas (width img) (height img);
          ctx = drawImage ctx img 0 0;
          animalEntries = data;
          (highestAnimalName, maxPercentage) = highest_loop animalEntries (None, Finite (- 1) 0)
      in animal_draw_loop env highestAnimalName animalEntries ctx)"

definition generateAnimalImage ::
  "env \<Rightarrow> string \<Rightarrow> entries \<Rightarrow> world \<Rightarrow> (thrown + string) \<times> world"
where
  "generateAnimalImage env baseImageUrl data w =
     (let w = w\<lparr>requested := requested w @ [baseImageUrl]\<rparr>;
          attempt =
            (case loadImage env baseImageUrl of
               Inl err \<Rightarrow> Inl err
             | Inr img \<Rightarrow>
                 (case animal_surface env img data of
                    Inl err \<Rightarrow> Inl err
                  | Inr ctx \<Rightarrow> Inr (toDataURL env ctx)))
      in case attempt of
           Inl err \<Rightarrow>
             (Inl (ErrorObj (''Error during animal image processing: '' @ thrown_message err)), w)
         | Inr url \<Rightarrow> (Inr url, w))"

section \<open>The brain renderer\<close>

definition brain_positions :: "(string \<times> int \<times> int \<times> string) list" where
  "brain_positions =
     [(''pensante'', (320, 240, ''center'')),
      (''atuante'', (320, 780, ''center'')),
      (''razao'', (48, 450, ''left'')),
      (''emocao'', (600, 450, ''right''))]"

text \<open>
  The loop of \<^verbatim>\<open>generateBrainImage\<close>: \<^verbatim>\<open>if (pos)\<close> skips an undefined lookup; an
  inherited member is truthy and its \<^verbatim>\<open>x\<close>, \<^verbatim>\<open>y\<close> and \<^verbatim>\<open>align\<close> are undefined.
\<close>

fun brain_draw_loop :: "string \<Rightarrow> string \<Rightarrow> entries \<Rightarrow> context2d \<Rightarrow> context2d" where
  "brain_draw_loop fnt color [] ctx = ctx"
| "brain_draw_loop fnt color ((name, percentage) # rest) ctx =
     (case property brain_positions name of
        Absent \<Rightarrow> brain_draw_loop fnt color rest ctx
      | Inherited \<Rightarrow>
          brain_draw_loop fnt color rest
            (drawTextWithShadow ctx (number_to_string percentage @ ''%'') None None fnt color None ''middle'')
      | Own (x, y, align) \<Rightarrow>
          brain_draw_loop fnt color rest
            (drawTextWithShadow ctx (number_to_string percentage @ ''%'') (Some x) (Some y) fnt color
               (Some align) ''middle''))"

definition brain_surface :: "image \<Rightarrow> entries \<Rightarrow> context2d" where
  "brain_surface img data =
     (let ctx = createCanvas (width img) (height img);
          ctx = drawImage ctx img 0 0;
          fontSize = Finite 44 0;
          color = ''#FFFFFF'';
          fnt = ''bold '' @ number_to_string fontSize @ ''px '' @ fontName;
          brainEntries = data
      in brain_draw_loop fnt color brainEntries ctx)"

definition generateBrainImage ::
  "env \<Rightarrow> string \<Rightarrow> entries \<Rightarrow> world \<Rightarrow> (thrown + string) \<times> world"
where
  "generateBrainImage env baseImageUrl data w =
     (let w = w\<lparr>requested := requested w @ [baseImageUrl]\<rparr>;
          attempt =
            (case loadImage env baseImageUrl of
               Inl err \<Rightarrow> Inl err
             | Inr img \<Rightarrow> Inr (toDataURL env (brain_surface img data)))
      in case attempt of
           Inl err \<Rightarrow>
             (Inl (ErrorObj (''Error during brain image processing: '' @ thrown_message err)), w)
         | Inr url \<Rightarrow> (Inr url, w))"

section \<open>The request handler\<close>

definition BASE_IMAGE_BRAIN_URL :: string where
  "BASE_IMAGE_BRAIN_URL = ''https://i.postimg.cc/LXMYjwtX/Inserir-um-t-tulo-6.png''"

definition BASE_IMAGE_ANIMALS_URL :: string where
  "BASE_IMAGE_ANIMALS_URL = ''https://i.postimg.cc/0N1sjN2W/Inserir-um-t-tulo-7.png''"

text \<open>
  What the handler reads of a request. A property of the body is absent (undefined),
  another falsy value (null, false, 0, NaN, the empty string), or a truthy value given by
  its entries. A body that is undefined or null cannot be destructured; any other body
  is given by its two properties \<^verbatim>\<open>animalData\<close> and \<^verbatim>\<open>brainData\<close>.
\<close>

datatype payload = Missing | Falsy | Entries entries

datatype body = BodyUndefined | BodyNull | Body payload payload

record request =
  req_method :: string
  req_body :: body

record response =
  status :: nat
  json :: "(string \<times> string) list"

fun truthy :: "payload \<Rightarrow> bool" where
  "truthy (Entries es) = True"
| "truthy p = False"

text \<open>
  What \<^verbatim>\<open>Object.entries\<close> gives for a dataset; the handler passes truthy datasets only
  to the renderers.
\<close>

fun object_entries :: "payload \<Rightarrow> entries" where
  "object_entries (Entries es) = es"
| "object_entries p = []"

text \<open>
  \<^verbatim>\<open>Promise.all\<close> of the two renders: it fulfils with both results, and rejects with
  the rejection that comes first.
\<close>

fun promise_all :: "env \<Rightarrow> thrown + string \<Rightarrow> thrown + string \<Rightarrow> thrown + string \<times> string" where
  "promise_all env (Inr a) (Inr b) = Inr (a, b)"
| "promise_all env (Inl ea) (Inr b) = Inl ea"
| "promise_all env (Inr a) (Inl eb) = Inl eb"
| "promise_all env (Inl ea) (Inl eb) = Inl (if animalRejectsFirst env then ea else eb)"

text \<open>The \<^verbatim>\<open>try\<close> block of the handler: a response, or what was thrown.\<close>

definition handler_try :: "env \<Rightarrow> request \<Rightarrow> world \<Rightarrow> (thrown + response) \<times> world" where
  \<open>handler_try env req w =
     (case req_body req of
        BodyUndefined \<Rightarrow> (Inl (ErrorObj (typeErrorMessage env ''req.body'')), w)
      | BodyNull \<Rightarrow> (Inl (ErrorObj (typeErrorMessage env ''req.body'')), w)
      | Body animalData brainData \<Rightarrow>
          if \<not> truthy animalData \<or> \<not> truthy brainData
          then (Inr \<lparr>status = 400,
                     json = [(''error'',
                       ''Request body must contain "animalData" and "brainData" objects.'')]\<rparr>, w)
          else
            (let (animalResult, w) =
                   generateAnimalImage env BASE_IMAGE_ANIMALS_URL (object_entries animalData) w;
                 (brainResult, w) =
                   generateBrainImage env BASE_IMAGE_BRAIN_URL (object_entries brainData) w
             in case promise_all env animalResult brainResult of
                  Inl err \<Rightarrow> (Inl err, w)
                | Inr (animalImage, brainImage) \<Rightarrow>
                    (Inr \<lparr>status = 200,
                          json = [(''animalImage'', animalImage), (''brainImage'', brainImage)]\<rparr>,
                     w)))\<close>

definition handler :: "env \<Rightarrow> request \<Rightarrow> world \<Rightarrow> response \<times> world" where
  "handler env req w =
     (if req_method req \<noteq> ''POST''
      then (\<lparr>status = 405, json = [(''error'', ''Method Not Allowed'')]\<rparr>, w)
      else case handler_try env req w of
             (Inr res, w) \<Rightarrow> (res, w)
           | (Inl err, w) \<Rightarrow>
               (\<lparr>status = 500,
                 json = [(''error'', ''Failed to generate images.''),
                         (''details'',
                          case err of
                            ErrorObj m \<Rightarrow> m
                          | NonError s \<Rightarrow> ''An unknown error occurred.'')]\<rparr>,
                w\<lparr>console := console w @ [(''Image generation failed:'', err)]\<rparr>))"

section \<open>Vocabulary of the properties\<close>

text \<open>The texts painted on a surface, in painting order.\<close>

fun text_of :: "draw_op \<Rightarrow> painted list" where
  "text_of (FillText p) = [p]"
| "text_of (DrawImage img dx dy) = []"

definition texts :: "context2d \<Rightarrow> painted list" where
  "texts ctx = concat (map text_of (drawn ctx))"

text \<open>A text painted under the fixed drop shadow of \<^verbatim>\<open>drawTextWithShadow\<close>.\<close>

definition shadowed_text ::
  "string \<Rightarrow> int \<times> int \<Rightarrow> string \<Rightarrow> string \<Rightarrow> string \<Rightarrow> string \<Rightarrow> painted" where
  "shadowed_text t pos fnt fill align baseline =
     \<lparr>painted_text = t, painted_x = fst pos, painted_y = snd pos, painted_font = fnt,
      painted_fillStyle = fill, painted_textAlign = align, painted_textBaseline = baseline,
      painted_shadowColor = ''rgba(0, 0, 0, 0.8)'', painted_shadowBlur = 10,
      painted_shadowOffsetX = 0, painted_shadowOffsetY = 0\<rparr>"

definition shadow_reset :: "context2d \<Rightarrow> bool" where
  "shadow_reset ctx = (shadowColor ctx = ''transparent'' \<and> shadowBlur ctx = 0)"

definition style :: "painted \<Rightarrow> string \<times> string" where
  "style p = (painted_font p, painted_fillStyle p)"

definition normal_style :: "string \<times> string" where
  "normal_style = (''bold 36px sans-serif'', ''#FFFFFF'')"

definition highest_style :: "string \<times> string" where
  "highest_style = (''bold 40px sans-serif'', ''#FFED00'')"

text \<open>What the animal renderer is expected to paint for one entry, and the brain renderer.\<close>

definition animal_text :: "string option \<Rightarrow> string \<times> number \<Rightarrow> painted" where
  "animal_text h e =
     shadowed_text (number_to_string (snd e) @ ''%'') (the (map_of animal_positions (fst e)))
       (if Some (fst e) = h then ''bold 40px sans-serif'' else ''bold 36px sans-serif'')
       (if Some (fst e) = h then ''#FFED00'' else ''#FFFFFF'') ''right'' ''middle''"

definition brain_text :: "string \<times> number \<Rightarrow> painted" where
  "brain_text e =
     (case the (map_of brain_positions (fst e)) of
        (x, y, align) \<Rightarrow>
          shadowed_text (number_to_string (snd e) @ ''%'') (x, y)
            ''bold 44px sans-serif'' ''#FFFFFF'' align ''middle'')"

definition in_table :: "(string \<times> 'a) list \<Rightarrow> string \<times> number \<Rightarrow> bool" where
  "in_table literal e = (fst e \<in> fst ` set literal)"

text \<open>The texts on the surface the animal renderer builds from a loaded image.\<close>

definition animal_texts :: "env \<Rightarrow> image \<Rightarrow> entries \<Rightarrow> painted list" where
  "animal_texts env img data =
     (case animal_surface env img data of Inl err \<Rightarrow> [] | Inr ctx \<Rightarrow> texts ctx)"

text \<open>
  A profile has exactly the four keys of its kind, each once, in whatever order the
  object lists them.
\<close>

definition animal_profile :: "entries \<Rightarrow> bool" where
  "animal_profile data =
     (distinct (map fst data) \<and> set (map fst data) = set (map fst animal_positions))"

definition brain_profile :: "entries \<Rightarrow> bool" where
  "brain_profile data =
     (distinct (map fst data) \<and> set (map fst data) = set (map fst brain_positions))"

text \<open>The decimal numeral of an integer, and the texts that are such a numeral.\<close>

definition int_numeral :: "int \<Rightarrow> string" where
  "int_numeral i = (if i < 0 then ''-'' else []) @ digits_of (nat \<bar>i\<bar>)"

definition is_integer_text :: "string \<Rightarrow> bool" where
  "is_integer_text s =
     (let d = (if s \<noteq> [] \<and> hd s = CHR ''-'' then tl s else s)
      in d \<noteq> [] \<and> list_all (\<lambda>c. c \<in> set ''0123456789'') d)"

text \<open>
  The number \<open>v\<close> is the integer \<open>i\<close>. A number is an integer exactly when the decimal
  JavaScript prints for it is one, and for an integer of magnitude up to \<open>2 ^ 53\<close> that
  decimal is the integer itself; a larger integer may be printed as a rounder one.
\<close>

definition is_int_value :: "number \<Rightarrow> int \<Rightarrow> bool" where
  "is_int_value v i = (\<exists>m e. v = Finite m e \<and> mathematical_value m e = of_int i)"

subsection \<open>Concrete inputs\<close>

definition sample_image :: image where
  "sample_image = \<lparr>width = 640, height = 900, pixels = []\<rparr>"

definition sample_env :: env where
  "sample_env =
     \<lparr>loadImage = (\<lambda>url. Inr sample_image),
      toDataURL = (\<lambda>ctx. ''data:image/png;base64,'' @ concat (map painted_text (texts ctx))),
      typeErrorMessage = (\<lambda>expr. ''Cannot destructure '' @ expr @ '' as it is undefined.''),
      animalRejectsFirst = True\<rparr>"

definition offline_env :: env where
  "offline_env = sample_env\<lparr>loadImage := (\<lambda>url. Inl (ErrorObj ''Server responded with 404''))\<rparr>"

definition empty_world :: world where
  "empty_world = \<lparr>requested = [], console = []\<rparr>"

definition sample_animals :: entries where
  "sample_animals =
     [(''lobo'', Finite 10 0), (''aguia'', Finite 55 0),
      (''tubarao'', Finite 20 0), (''gato'', Finite 15 0)]"

definition negative_animals :: entries where
  "negative_animals =
     [(''lobo'', Finite (- 5) 0), (''aguia'', Finite (- 2) 0),
      (''tubarao'', Finite (- 3) 0), (''gato'', Finite (- 4) 0)]"

definition fractional_animals :: entries where
  "fractional_animals =
     [(''lobo'', Finite 125 (- 1)), (''aguia'', Finite 55 0),
      (''tubarao'', Finite 20 0), (''gato'', Finite 125 (- 1))]"

definition sample_brain :: entries where
  "sample_brain =
     [(''pensante'', Finite 60 0), (''atuante'', Finite 40 0),
      (''razao'', Finite 30 0), (''emocao'', Finite 70 0)]"

definition stray_brain :: entries where
  "stray_brain =
     [(''pensante'', Finite 60 0), (''foo'', Finite 40 0),
      (''toString'', Finite 30 0), (''emocao'', Finite 70 0)]"

definition sample_request :: request where
  "sample_request =
     \<lparr>req_method = ''POST'', req_body = Body (Entries sample_animals) (Entries sample_brain)\<rparr>"

definition null_body_request :: request where
  "null_body_request = \<lparr>req_method = ''POST'', req_body = BodyNull\<rparr>"

definition missing_brain_request :: request where
  "missing_brain_request =
     \<lparr>req_method = ''POST'', req_body = Body (Entries sample_animals) Missing\<rparr>"


definition brain_offline_env :: env where
  "brain_offline_env =
     sample_env\<lparr>loadImage :=
       (\<lambda>url. if url = BASE_IMAGE_BRAIN_URL then Inl (ErrorObj ''Server responded with 404'')
              else Inr sample_image)\<rparr>"

section \<open>Properties\<close>

subsection \<open>Comparison of numbers\<close>



lemma lte_not_gt: "lte a b \<Longrightarrow> \<not> gt a b"
  by (cases a; cases b) auto







subsection \<open>Decimal digits\<close>

lemma digit_char_digit: "d < 10 \<Longrightarrow> digit_char d \<in> set ''0123456789''"
proof -
  assume "d < 10"
  then have "d < length ''0123456789''" by simp
  then have "''0123456789'' ! d \<in> set ''0123456789''" by (rule nth_mem)
  then show ?thesis by (simp only: digit_char_def)
qed

lemma digits_of_digits: "set (digits_of n) \<subseteq> set ''0123456789''"
proof (induction n rule: digits_of.induct)
  case (1 n)
  show ?case
  proof (cases "n < 10")
    case True
    then show ?thesis using digit_char_digit [of n] by (subst digits_of.simps) simp
  next
    case False
    have "n mod 10 < 10" by simp
    from digit_char_digit [OF this] "1.IH" [OF False] False show ?thesis
      by (subst digits_of.simps) simp
  qed
qed

lemma digits_of_nonempty: "digits_of n \<noteq> []"
  by (subst digits_of.simps) simp

lemma length_digits_of: "n < 10 ^ d \<Longrightarrow> 0 < d \<Longrightarrow> length (digits_of n) \<le> d"
proof (induction d arbitrary: n)
  case 0
  then show ?case by simp
next
  case (Suc d)
  show ?case
  proof (cases "n < 10")
    case True
    then show ?thesis by (subst digits_of.simps) simp
  next
    case False
    with Suc.prems have d: "0 < d" by (cases d) auto
    from Suc.prems have "n div 10 < 10 ^ d" by (simp add: less_mult_imp_div_less mult.commute)
    from Suc.IH [OF this d] False show ?thesis by (subst digits_of.simps) simp
  qed
qed

text \<open>Dropping the trailing zeros and putting them back gives the digits again.\<close>

lemma strip_pad:
  "rev (dropWhile (\<lambda>x. x = c) (rev xs)) @
     replicate (length xs - length (dropWhile (\<lambda>x. x = c) (rev xs))) c = xs"
proof -
  let ?P = "\<lambda>x. x = c"
  have tk: "takeWhile ?P (rev xs) = replicate (length (takeWhile ?P (rev xs))) c"
    by (rule replicate_length_same [symmetric]) (auto dest: set_takeWhileD)
  have "length (takeWhile ?P (rev xs) @ dropWhile ?P (rev xs)) = length xs"
    by (simp only: takeWhile_dropWhile_id length_rev)
  then have len: "length xs - length (dropWhile ?P (rev xs)) = length (takeWhile ?P (rev xs))"
    by (simp only: length_append)
  have "xs = rev (dropWhile ?P (rev xs)) @ rev (takeWhile ?P (rev xs))"
    by (metis rev_append rev_rev_ident takeWhile_dropWhile_id)
  also have "rev (takeWhile ?P (rev xs)) = replicate (length (takeWhile ?P (rev xs))) c"
    using tk by (metis rev_replicate)
  finally show ?thesis using len by simp
qed

lemma digits_of_times_10: "0 < j \<Longrightarrow> digits_of (j * 10) = digits_of j @ ''0''"
  by (subst digits_of.simps) (simp add: digit_char_def)

lemma digits_of_shift: "0 < j \<Longrightarrow> digits_of (j * 10 ^ x) = digits_of j @ replicate x CHR ''0''"
proof (induction x)
  case 0
  show ?case by simp
next
  case (Suc x)
  have "j * 10 ^ Suc x = (j * 10 ^ x) * 10" by simp
  moreover have "0 < j * 10 ^ x" using Suc.prems by simp
  ultimately have "digits_of (j * 10 ^ Suc x) = digits_of (j * 10 ^ x) @ ''0''"
    using digits_of_times_10 by presburger
  with Suc show ?case by (simp add: replicate_append_same)
qed

lemma significant_shift: "0 < j \<Longrightarrow> significant (j * 10 ^ x) = significant j"
  by (simp add: significant_def digits_of_shift dropWhile_append)

lemma significant_pad:
  "significant j @ replicate (length (digits_of j) - length (significant j)) CHR ''0'' =
     digits_of j"
  unfolding significant_def using strip_pad [of "CHR ''0''" "digits_of j"] by simp

lemma length_significant: "length (significant j) \<le> length (digits_of j)"
  using length_dropWhile_le [of "\<lambda>c. c = CHR ''0''" "rev (digits_of j)"]
  by (simp add: significant_def)

lemma unsigned_to_string_scaled_up:
  assumes "0 < j" and "j * 10 ^ x < 10 ^ 21"
  shows "unsigned_to_string j (int x) = digits_of (j * 10 ^ x)"
proof -
  let ?s = "significant j"
  let ?l = "length (digits_of j)"
  have k: "length ?s \<le> ?l" by (rule length_significant)
  have "length (digits_of (j * 10 ^ x)) \<le> 21" using assms(2) by (simp add: length_digits_of)
  then have n: "?l + x \<le> 21" using assms(1) by (simp add: digits_of_shift)
  have c: "int (length ?s) \<le> int x + int ?l \<and> int x + int ?l \<le> 21" using k n by simp
  have d: "nat (int x + int ?l - int (length ?s)) = (?l - length ?s) + x" using k by simp
  have "?s @ replicate ((?l - length ?s) + x) CHR ''0'' = digits_of j @ replicate x CHR ''0''"
    using significant_pad [of j] by (simp add: replicate_add)
  then have pad: "?s @ replicate ((?l - length ?s) + x) CHR ''0'' = digits_of (j * 10 ^ x)"
    using assms(1) by (simp add: digits_of_shift)
  show ?thesis
    unfolding unsigned_to_string_def Let_def
    by (simp only: c if_True d pad simp_thms)
qed

lemma unsigned_to_string_scaled_down:
  assumes "0 < j" and "j < 10 ^ 21"
  shows "unsigned_to_string (j * 10 ^ x) (- int x) = digits_of j"
proof -
  let ?s = "significant j"
  let ?l = "length (digits_of j)"
  have k: "length ?s \<le> ?l" by (rule length_significant)
  have n: "?l \<le> 21" using assms(2) by (simp add: length_digits_of)
  have l: "length (digits_of (j * 10 ^ x)) = ?l + x" using assms(1) by (simp add: digits_of_shift)
  have s: "significant (j * 10 ^ x) = ?s" using assms(1) by (rule significant_shift)
  have e: "- int x + int (?l + x) = int ?l" by simp
  have c: "int (length ?s) \<le> int ?l \<and> int ?l \<le> 21" using k n by simp
  have d: "nat (int ?l - int (length ?s)) = ?l - length ?s" by simp
  show ?thesis
    unfolding unsigned_to_string_def Let_def l s e
    by (simp only: c if_True d significant_pad simp_thms)
qed

lemma nat_scaled: "0 \<le> a \<Longrightarrow> nat (a * 10 ^ x) = nat a * 10 ^ x"
  by (simp add: nat_mult_distrib nat_power_eq)

lemma digits_of_zero: "digits_of 0 = ''0''"
  by (simp add: digits_of.simps digit_char_def)

lemma positive_to_string:
  assumes "0 < i" and "i < 10 ^ 21"
    and "(0 \<le> e \<and> i = m * 10 ^ nat e) \<or> (e < 0 \<and> m = i * 10 ^ nat (- e))"
  shows "0 < m \<and> unsigned_to_string (nat m) e = digits_of (nat i)"
proof -
  have b: "nat i < 10 ^ 21"
  proof -
    from assms(1,2) have "int (nat i) < int (10 ^ 21)" by simp
    then show ?thesis by (simp only: of_nat_less_iff)
  qed
  from assms(3) show ?thesis
  proof
    assume up: "0 \<le> e \<and> i = m * 10 ^ nat e"
    with assms(1) have m: "0 < m" by (simp add: zero_less_mult_iff)
    then have j: "0 < nat m" by simp
    have v: "nat m * 10 ^ nat e = nat i" using up m nat_scaled [of m "nat e"] by simp
    with b have "nat m * 10 ^ nat e < 10 ^ 21" by simp
    from unsigned_to_string_scaled_up [OF j this] up v m show ?thesis by simp
  next
    assume down: "e < 0 \<and> m = i * 10 ^ nat (- e)"
    with assms(1) have m: "0 < m" by simp
    have j: "0 < nat i" using assms(1) by simp
    have v: "nat m = nat i * 10 ^ nat (- e)" using down assms(1) nat_scaled [of i "nat (- e)"] by simp
    have "int (nat (- e)) = - e" using down by simp
    then have "- int (nat (- e)) = e" by simp
    with unsigned_to_string_scaled_down [OF j b, of "nat (- e)"] v m show ?thesis by simp
  qed
qed

lemma integer_value_cases:
  assumes "mathematical_value m e = of_int i"
  shows "(0 \<le> e \<and> i = m * 10 ^ nat e) \<or> (e < 0 \<and> m = i * 10 ^ nat (- e))"
proof (cases "0 \<le> e")
  case True
  with assms have "(of_int (m * 10 ^ nat e) :: rat) = of_int i"
    by (simp add: mathematical_value_def)
  then have "m * 10 ^ nat e = i" by (simp only: of_int_eq_iff)
  with True show ?thesis by simp
next
  case False
  with assms have "(of_int m :: rat) / 10 ^ nat (- e) = of_int i"
    by (simp add: mathematical_value_def)
  then have "(of_int m :: rat) = of_int i * 10 ^ nat (- e)"
    by (simp add: divide_eq_eq)
  then have "(of_int m :: rat) = of_int (i * 10 ^ nat (- e))" by simp
  then have "m = i * 10 ^ nat (- e)" by (simp only: of_int_eq_iff)
  with False show ?thesis by simp
qed

lemma number_to_string_integer_value:
  assumes "mathematical_value m e = of_int i" and "\<bar>i\<bar> < 10 ^ 21"
  shows "number_to_string (Finite m e) = int_numeral i"
proof -
  note c = integer_value_cases [OF assms(1)]
  consider "i = 0" | "0 < i" | "i < 0" by linarith
  then show ?thesis
  proof cases
    case 1
    with c have "m = 0" by auto
    with 1 show ?thesis by (simp add: int_numeral_def digits_of_zero)
  next
    case 2
    with assms(2) have "i < 10 ^ 21" by simp
    from positive_to_string [OF 2 this c] 2 show ?thesis by (simp add: int_numeral_def)
  next
    case 3
    with assms(2) have b: "- i < 10 ^ 21" by simp
    from 3 have p: "0 < - i" by simp
    from c have "(0 \<le> e \<and> - i = (- m) * 10 ^ nat e) \<or> (e < 0 \<and> - m = (- i) * 10 ^ nat (- e))"
      by auto
    from positive_to_string [OF p b this] 3 show ?thesis by (simp add: int_numeral_def)
  qed
qed

lemma int_numeral_is_integer_text: "is_integer_text (int_numeral i)"
proof -
  let ?d = "digits_of (nat \<bar>i\<bar>)"
  have ne: "?d \<noteq> []" by (rule digits_of_nonempty)
  have all: "list_all (\<lambda>c. c \<in> set ''0123456789'') ?d"
    using digits_of_digits [of "nat \<bar>i\<bar>"] unfolding list_all_iff by blast
  have "hd ?d \<in> set ?d" using ne by simp
  with digits_of_digits [of "nat \<bar>i\<bar>"] have "hd ?d \<in> set ''0123456789''" by blast
  then have hd: "hd ?d \<noteq> CHR ''-''" by auto
  show ?thesis
  proof (cases "i < 0")
    case True
    then have "int_numeral i = CHR ''-'' # ?d" by (simp add: int_numeral_def)
    with ne all show ?thesis by (simp add: is_integer_text_def)
  next
    case False
    then have "int_numeral i = ?d" by (simp add: int_numeral_def)
    with ne all hd show ?thesis by (simp add: is_integer_text_def)
  qed
qed

lemma is_integer_text_chars:
  assumes "is_integer_text s"
  shows "set s \<subseteq> insert CHR ''-'' (set ''0123456789'')"
proof -
  define D where "D = set ''0123456789''"
  define r where "r = (if s \<noteq> [] \<and> hd s = CHR ''-'' then tl s else s)"
  from assms have "list_all (\<lambda>c. c \<in> D) r"
    unfolding is_integer_text_def Let_def D_def r_def by (rule conjunct2)
  then have r: "set r \<subseteq> D" unfolding list_all_iff by blast
  have "set s \<subseteq> insert CHR ''-'' (set r)"
  proof (cases "s \<noteq> [] \<and> hd s = CHR ''-''")
    case True
    then have "s = CHR ''-'' # tl s" by (cases s) simp_all
    then have e: "set s = insert CHR ''-'' (set (tl s))" by (metis list.simps(15))
    from True have "r = tl s" unfolding r_def by simp
    with e show ?thesis by (simp only: subset_refl)
  next
    case False
    then have "r = s" unfolding r_def by auto
    then show ?thesis by (simp only: subset_insertI)
  qed
  with r show ?thesis unfolding D_def by blast
qed

lemma fraction_marks:
  assumes "\<not> int (length (significant j)) \<le> e + int (length (digits_of j))"
  shows "CHR ''.'' \<in> set (unsigned_to_string j e) \<or> CHR ''e'' \<in> set (unsigned_to_string j e)"
  using assms by (simp add: unsigned_to_string_def Let_def)

lemma digit_char_zero: "d < 10 \<Longrightarrow> digit_char d = CHR ''0'' \<Longrightarrow> d = 0"
proof -
  assume d: "d < 10" and z: "digit_char d = CHR ''0''"
  from d have "d = 0 \<or> d = 1 \<or> d = 2 \<or> d = 3 \<or> d = 4 \<or> d = 5 \<or> d = 6 \<or> d = 7 \<or> d = 8 \<or> d = 9"
    by arith
  with z show ?thesis by (auto simp: digit_char_def)
qed

lemma trailing_zeros_dvd:
  "digits_of j = ds @ replicate t CHR ''0'' \<Longrightarrow> 10 ^ t dvd j"
proof (induction t arbitrary: j ds)
  case 0
  show ?case by simp
next
  case (Suc t)
  from Suc.prems have d: "digits_of j = (ds @ replicate t CHR ''0'') @ [CHR ''0'']"
    by (simp add: replicate_append_same)
  show ?case
  proof (cases "j < 10")
    case True
    then have "digits_of j = [digit_char j]" by (subst digits_of.simps) simp
    with d have "digit_char j = CHR ''0''" by simp
    with True have "j = 0" by (rule digit_char_zero)
    then show ?thesis by simp
  next
    case False
    then have "digits_of j = digits_of (j div 10) @ [digit_char (j mod 10)]"
      by (subst digits_of.simps) simp
    with d have a: "digits_of (j div 10) = ds @ replicate t CHR ''0''"
      and b: "digit_char (j mod 10) = CHR ''0''" by simp_all
    have "j mod 10 < 10" by simp
    from this b have m: "j mod 10 = 0" by (rule digit_char_zero)
    from Suc.IH [OF a] obtain q where "j div 10 = 10 ^ t * q" by (auto simp: dvd_def)
    with m have "j = 10 ^ Suc t * q" by (metis mod_0_imp_dvd dvd_mult_div_cancel mult.assoc mult.commute power_Suc)
    then show ?thesis by simp
  qed
qed

lemma plain_digits_integer:
  assumes "int (length (significant j)) \<le> e + int (length (digits_of j))"
  shows "0 \<le> e \<or> 10 ^ nat (- e) dvd j"
proof (cases "0 \<le> e")
  case True
  then show ?thesis by simp
next
  case False
  let ?t = "length (digits_of j) - length (significant j)"
  have "digits_of j = significant j @ replicate ?t CHR ''0''"
    by (rule significant_pad [symmetric])
  then have d: "10 ^ ?t dvd j" by (rule trailing_zeros_dvd)
  from assms False length_significant [of j] have "nat (- e) \<le> ?t" by linarith
  then have "(10 :: nat) ^ nat (- e) dvd 10 ^ ?t" by (rule le_imp_power_dvd)
  from this d have "10 ^ nat (- e) dvd j" by (rule dvd_trans)
  then show ?thesis by simp
qed

lemma not_integer_cases:
  assumes "\<forall>i. mathematical_value m e \<noteq> of_int i"
  shows "e < 0 \<and> \<not> 10 ^ nat (- e) dvd m"
proof -
  have neg: "e < 0"
  proof (rule ccontr)
    assume "\<not> e < 0"
    then have "mathematical_value m e = of_int (m * 10 ^ nat e)"
      by (simp add: mathematical_value_def)
    with assms show False by blast
  qed
  have "\<not> 10 ^ nat (- e) dvd m"
  proof
    assume "10 ^ nat (- e) dvd m"
    then obtain q where "m = 10 ^ nat (- e) * q" by (auto simp: dvd_def)
    with neg have "mathematical_value m e = of_int q"
      by (simp add: mathematical_value_def)
    with assms show False by blast
  qed
  with neg show ?thesis by simp
qed

lemma non_integer_text:
  assumes "\<forall>i. mathematical_value m e \<noteq> of_int i"
  shows "\<not> is_integer_text (number_to_string (Finite m e))"
proof
  assume it: "is_integer_text (number_to_string (Finite m e))"
  from not_integer_cases [OF assms] have e: "e < 0" and nd: "\<not> 10 ^ nat (- e) dvd m" by simp_all
  from nd have m0: "m \<noteq> 0" by auto
  let ?j = "nat \<bar>m\<bar>"
  let ?u = "unsigned_to_string ?j e"
  have "\<not> 10 ^ nat (- e) dvd ?j"
  proof
    assume "10 ^ nat (- e) dvd ?j"
    then have "int (10 ^ nat (- e)) dvd int ?j" by (simp only: int_dvd_int_iff)
    then have "10 ^ nat (- e) dvd m" by simp
    with nd show False ..
  qed
  with e plain_digits_integer [of ?j e]
  have "\<not> int (length (significant ?j)) \<le> e + int (length (digits_of ?j))" by auto
  then have marks: "CHR ''.'' \<in> set ?u \<or> CHR ''e'' \<in> set ?u" by (rule fraction_marks)
  have "set ?u \<subseteq> set (number_to_string (Finite m e))"
  proof (cases "m < 0")
    case True
    then have "nat (- m) = ?j" by simp
    with True m0 show ?thesis by auto
  next
    case False
    then have "nat m = ?j" by simp
    with False m0 show ?thesis by auto
  qed
  from this is_integer_text_chars [OF it]
  have "set ?u \<subseteq> insert CHR ''-'' (set ''0123456789'')"
    by (rule subset_trans)
  with marks show False by auto
qed

lemma special_values_text:
  "\<not> is_integer_text ''NaN''"
  "\<not> is_integer_text ''Infinity''"
  "\<not> is_integer_text ''-Infinity''"
  by (simp_all add: is_integer_text_def)

lemma not_int_value_text:
  assumes "\<forall>i. \<not> is_int_value v i"
  shows "\<not> is_integer_text (number_to_string v)"
proof (cases v)
  case (Finite m e)
  with assms have "\<forall>i. mathematical_value m e \<noteq> of_int i" by (simp add: is_int_value_def)
  then have "\<not> is_integer_text (number_to_string (Finite m e))" by (rule non_integer_text)
  with Finite show ?thesis by simp
qed (simp_all add: special_values_text)

lemma int_value_text:
  assumes "is_int_value v i" and "\<bar>i\<bar> \<le> 2 ^ 53"
  shows "number_to_string v = int_numeral i"
proof -
  from assms(1) obtain m e where v: "v = Finite m e" "mathematical_value m e = of_int i"
    by (auto simp: is_int_value_def)
  have "(2 :: int) ^ 53 < 10 ^ 21" by simp
  with assms(2) have "\<bar>i\<bar> < 10 ^ 21" by (rule le_less_trans)
  with v(2) have "number_to_string (Finite m e) = int_numeral i"
    by (rule number_to_string_integer_value)
  with v(1) show ?thesis by simp
qed

lemma font_digits:
  "unsigned_to_string 40 0 = ''40''"
  "unsigned_to_string 36 0 = ''36''"
  "unsigned_to_string 44 0 = ''44''"
  by (simp_all add: unsigned_to_string_def significant_def digits_of.simps digit_char_def)

subsection \<open>The drawing primitive\<close>

lemma set_textAlign_simps:
  "drawn (set_textAlign ctx a) = drawn ctx"
  "font (set_textAlign ctx a) = font ctx"
  "fillStyle (set_textAlign ctx a) = fillStyle ctx"
  "textAlign (set_textAlign ctx (Some v)) = v"
  "textAlign (set_textAlign ctx None) = textAlign ctx"
  by (simp_all add: set_textAlign_def split: option.splits)

lemma texts_drawText_at:
  "texts (drawTextWithShadow ctx t (Some x) (Some y) fnt fill (Some a) b) =
     texts ctx @ [shadowed_text t (x, y) fnt fill a b]"
  by (simp add: drawTextWithShadow_def fillText_def set_textAlign_simps texts_def
      shadowed_text_def Let_def)

lemma texts_drawText_nowhere:
  "texts (drawTextWithShadow ctx t None None fnt fill a b) = texts ctx"
  by (simp add: drawTextWithShadow_def fillText_def texts_def set_textAlign_simps Let_def)

lemma shadow_reset_drawText: "shadow_reset (drawTextWithShadow ctx t x y fnt fill a b)"
  by (simp add: drawTextWithShadow_def shadow_reset_def Let_def)

lemma drawn_drawText_shadow_free:
  "drawn (drawTextWithShadow
       (ctx\<lparr>shadowColor := c, shadowBlur := r, shadowOffsetX := ox, shadowOffsetY := oy\<rparr>)
       t x y fnt fill a b) =
   drawn (drawTextWithShadow ctx t x y fnt fill a b)"
  by (simp add: drawTextWithShadow_def fillText_def set_textAlign_def Let_def split: option.splits)

lemma texts_fresh: "texts (drawImage (createCanvas w h) img dx dy) = []"
  by (simp add: texts_def drawImage_def createCanvas_def)

subsection \<open>The maximum loop\<close>

lemma highest_loop_unchanged:
  "\<forall>e\<in>set xs. \<not> gt (snd e) m \<Longrightarrow> highest_loop xs (h, m) = (h, m)"
  by (induction xs) auto



subsection \<open>The drawing loops\<close>

lemma animal_position_own:
  "k \<in> fst ` set animal_positions \<Longrightarrow>
     property animal_positions k = Own (the (map_of animal_positions k))"
  by (auto simp: property_def animal_positions_def)

lemma animal_draw_loop_texts:
  "\<forall>e\<in>set data. fst e \<in> fst ` set animal_positions \<Longrightarrow>
     \<exists>ctx'. animal_draw_loop env h data ctx = Inr ctx' \<and>
       texts ctx' = texts ctx @ map (animal_text h) data"
proof (induction data arbitrary: ctx)
  case Nil
  then show ?case by simp
next
  case (Cons e data)
  obtain k v where e: "e = (k, v)" by (cases e)
  obtain x y where xy: "the (map_of animal_positions k) = (x, y)"
    by (cases "the (map_of animal_positions k)")
  from Cons.prems e have own: "property animal_positions k = Own (x, y)"
    using animal_position_own [of k] xy by simp
  let ?ctx = "drawTextWithShadow ctx (number_to_string v @ ''%'') (Some x) (Some y)
      (''bold '' @ number_to_string (if Some k = h then highestFontSize else normalFontSize)
         @ ''px '' @ fontName)
      (if Some k = h then highestColor else normalColor) (Some ''right'') ''middle''"
  from Cons.prems have "\<forall>e\<in>set data. fst e \<in> fst ` set animal_positions" by simp
  from Cons.IH [OF this, of ?ctx] obtain ctx' where
    r: "animal_draw_loop env h data ?ctx = Inr ctx'"
       "texts ctx' = texts ?ctx @ map (animal_text h) data"
    by blast
  have step: "animal_draw_loop env h (e # data) ctx = animal_draw_loop env h data ?ctx"
    using own e by (simp add: Let_def)
  have "texts ?ctx = texts ctx @ [animal_text h e]"
    using xy e
    by (simp add: texts_drawText_at animal_text_def font_digits fontName_def
        highestFontSize_def normalFontSize_def highestColor_def normalColor_def)
  with r step show ?case by simp
qed

lemma animal_loop_shadow:
  "animal_draw_loop env h data ctx = Inr ctx' \<Longrightarrow> shadow_reset ctx \<or> data \<noteq> [] \<Longrightarrow>
     shadow_reset ctx'"
proof (induction data arbitrary: ctx)
  case Nil
  then show ?case by simp
next
  case (Cons e data)
  obtain k v where e: "e = (k, v)" by (cases e)
  show ?case
  proof (cases "property animal_positions k")
    case (Own pos)
    obtain x y where "pos = (x, y)" by (cases pos)
    with Own e Cons.prems(1) show ?thesis
      by (auto simp: Let_def shadow_reset_drawText intro!: Cons.IH)
  next
    case Inherited
    with e Cons.prems(1) show ?thesis
      by (auto simp: Let_def shadow_reset_drawText intro!: Cons.IH)
  next
    case Absent
    with e Cons.prems(1) show ?thesis by (simp add: Let_def)
  qed
qed

lemma brain_position_cases:
  "if k \<in> fst ` set brain_positions
   then property brain_positions k = Own (the (map_of brain_positions k))
   else property brain_positions k = Inherited \<or> property brain_positions k = Absent"
  by (auto simp: property_def brain_positions_def)

lemma brain_draw_loop_texts:
  "texts (brain_draw_loop ''bold 44px sans-serif'' ''#FFFFFF'' data ctx) =
     texts ctx @ map brain_text (filter (in_table brain_positions) data)"
proof (induction data arbitrary: ctx)
  case Nil
  then show ?case by simp
next
  case (Cons e data)
  obtain k v where e: "e = (k, v)" by (cases e)
  show ?case
  proof (cases "k \<in> fst ` set brain_positions")
    case True
    obtain x y a where xya: "the (map_of brain_positions k) = (x, y, a)"
      by (cases "the (map_of brain_positions k)")
    with True brain_position_cases [of k] have "property brain_positions k = Own (x, y, a)"
      by simp
    with True e xya show ?thesis
      by (simp add: Cons.IH texts_drawText_at brain_text_def in_table_def)
  next
    case False
    with brain_position_cases [of k]
    have "property brain_positions k = Inherited \<or> property brain_positions k = Absent"
      by simp
    with False e show ?thesis
      by (auto simp: Cons.IH texts_drawText_nowhere in_table_def)
  qed
qed

lemma brain_loop_shadow:
  "shadow_reset ctx \<or> (\<exists>e\<in>set data. property brain_positions (fst e) \<noteq> Absent) \<Longrightarrow>
     shadow_reset (brain_draw_loop fnt fill data ctx)"
proof (induction data arbitrary: ctx)
  case Nil
  then show ?case by simp
next
  case (Cons e data)
  obtain k v where e: "e = (k, v)" by (cases e)
  show ?case
  proof (cases "property brain_positions k")
    case (Own pos)
    obtain x y a where "pos = (x, y, a)" by (cases pos)
    with Own e show ?thesis by (simp add: Cons.IH shadow_reset_drawText)
  next
    case Inherited
    with e show ?thesis by (simp add: Cons.IH shadow_reset_drawText)
  next
    case Absent
    with e Cons.prems show ?thesis by (simp add: Cons.IH)
  qed
qed

subsection \<open>The renderers on a loaded image\<close>

lemma brain_surface_texts:
  "texts (brain_surface img data) = map brain_text (filter (in_table brain_positions) data)"
  by (simp add: brain_surface_def Let_def font_digits fontName_def brain_draw_loop_texts
      texts_fresh)

lemma generateBrainImage_loaded:
  "loadImage env url = Inr img \<Longrightarrow>
     fst (generateBrainImage env url data w) = Inr (toDataURL env (brain_surface img data))"
  by (simp add: generateBrainImage_def Let_def)

lemma brain_text_style:
  "painted_font (brain_text e) = ''bold 44px sans-serif'' \<and>
   painted_fillStyle (brain_text e) = ''#FFFFFF'' \<and>
   painted_textBaseline (brain_text e) = ''middle'' \<and>
   painted_text (brain_text e) = number_to_string (snd e) @ ''%''"
  by (simp add: brain_text_def shadowed_text_def split: prod.splits)

lemma brain_profile_filter:
  "brain_profile data \<Longrightarrow> filter (in_table brain_positions) data = data"
  by (auto simp: brain_profile_def in_table_def filter_id_conv)

lemma animal_surface_texts:
  assumes "\<forall>e\<in>set data. fst e \<in> fst ` set animal_positions"
  shows "\<exists>ctx. animal_surface env img data = Inr ctx \<and>
           texts ctx = map (animal_text (fst (highest_loop data (None, Finite (- 1) 0)))) data"
proof -
  let ?h = "fst (highest_loop data (None, Finite (- 1) 0))"
  let ?ctx = "drawImage (createCanvas (width img) (height img)) img 0 0"
  from animal_draw_loop_texts [OF assms, of env ?h ?ctx] obtain ctx where
    "animal_draw_loop env ?h data ?ctx = Inr ctx" "texts ctx = texts ?ctx @ map (animal_text ?h) data"
    by blast
  then show ?thesis
    by (simp add: animal_surface_def Let_def texts_fresh case_prod_beta)
qed

lemma generateAnimalImage_loaded:
  "loadImage env url = Inr img \<Longrightarrow> animal_surface env img data = Inr ctx \<Longrightarrow>
     fst (generateAnimalImage env url data w) = Inr (toDataURL env ctx)"
  by (simp add: generateAnimalImage_def Let_def)

lemma animal_profile_keys:
  "animal_profile data \<Longrightarrow> \<forall>e\<in>set data. fst e \<in> fst ` set animal_positions"
  by (auto simp: animal_profile_def)

lemma style_animal_text:
  "style (animal_text h e) = (if Some (fst e) = h then highest_style else normal_style)"
  by (simp add: style_def animal_text_def shadowed_text_def highest_style_def normal_style_def)

lemma text_animal_text: "painted_text (animal_text h e) = number_to_string (snd e) @ ''%''"
  by (simp add: animal_text_def shadowed_text_def)

lemma animal_texts_eq:
  assumes "\<forall>e\<in>set data. fst e \<in> fst ` set animal_positions"
  shows "animal_texts env img data =
           map (animal_text (fst (highest_loop data (None, Finite (- 1) 0)))) data"
  using animal_surface_texts [OF assms, of env img] by (auto simp: animal_texts_def)

subsection \<open>Failures and the outside world\<close>

lemma generateBrainImage_failed:
  "loadImage env url = Inl err \<Longrightarrow>
     generateBrainImage env url data w =
       (Inl (ErrorObj (''Error during brain image processing: '' @ thrown_message err)),
        w\<lparr>requested := requested w @ [url]\<rparr>)"
  by (simp add: generateBrainImage_def Let_def)

lemma generateAnimalImage_failed:
  "loadImage env url = Inl err \<Longrightarrow>
     generateAnimalImage env url data w =
       (Inl (ErrorObj (''Error during animal image processing: '' @ thrown_message err)),
        w\<lparr>requested := requested w @ [url]\<rparr>)"
  by (simp add: generateAnimalImage_def Let_def)

lemma generateAnimalImage_wraps:
  "fst (generateAnimalImage env url data w) = Inl e \<Longrightarrow>
     \<exists>cause. e = ErrorObj (''Error during animal image processing: '' @ thrown_message cause)"
  by (auto simp: generateAnimalImage_def Let_def split: sum.splits)

lemma generateAnimalImage_surface_failed:
  "loadImage env url = Inr img \<Longrightarrow> animal_surface env img data = Inl err \<Longrightarrow>
     fst (generateAnimalImage env url data w) =
       Inl (ErrorObj (''Error during animal image processing: '' @ thrown_message err))"
  by (simp add: generateAnimalImage_def Let_def)




section \<open>The claims\<close>

text \<open>
  Claim C2: for every brain profile, every entry is painted with the same style, bold 44px
  sans-serif, fill colour #FFFFFF and middle baseline, whatever the values are; the brain
  renderer computes no maximum. Every text the renderer paints has that style, and for a
  profile with the four keys each entry is painted once, in order, as its value followed
  by the percent sign.
\<close>

theorem brain_entries_uniform_style:
  assumes "loadImage env url = Inr img"
  shows "\<exists>ctx. fst (generateBrainImage env url data w) = Inr (toDataURL env ctx) \<and>
           (\<forall>p\<in>set (texts ctx).
              painted_font p = ''bold 44px sans-serif'' \<and> painted_fillStyle p = ''#FFFFFF'' \<and>
              painted_textBaseline p = ''middle'') \<and>
           (brain_profile data \<longrightarrow>
              map painted_text (texts ctx) = map (\<lambda>e. number_to_string (snd e) @ ''%'') data)"
proof -
  let ?ctx = "brain_surface img data"
  have "fst (generateBrainImage env url data w) = Inr (toDataURL env ?ctx)"
    using assms by (rule generateBrainImage_loaded)
  moreover have "\<forall>p\<in>set (texts ?ctx).
      painted_font p = ''bold 44px sans-serif'' \<and> painted_fillStyle p = ''#FFFFFF'' \<and>
      painted_textBaseline p = ''middle''"
    by (auto simp: brain_surface_texts brain_text_style)
  moreover have "brain_profile data \<longrightarrow>
      map painted_text (texts ?ctx) = map (\<lambda>e. number_to_string (snd e) @ ''%'') data"
    by (simp add: brain_surface_texts brain_profile_filter brain_text_style)
  ultimately show ?thesis by blast
qed

theorem brain_entries_uniform_style_witness:
  "loadImage sample_env BASE_IMAGE_BRAIN_URL = Inr sample_image \<and> brain_profile sample_brain \<and>
   (\<exists>ctx. fst (generateBrainImage sample_env BASE_IMAGE_BRAIN_URL sample_brain empty_world) =
             Inr (toDataURL sample_env ctx) \<and>
          (\<forall>p\<in>set (texts ctx).
              painted_font p = ''bold 44px sans-serif'' \<and> painted_fillStyle p = ''#FFFFFF'' \<and>
              painted_textBaseline p = ''middle'') \<and>
          map painted_text (texts ctx) = [''60%'', ''40%'', ''30%'', ''70%''])"
proof -
  have l: "loadImage sample_env BASE_IMAGE_BRAIN_URL = Inr sample_image"
    by (simp add: sample_env_def)
  have p: "brain_profile sample_brain"
    by (simp add: brain_profile_def sample_brain_def brain_positions_def)
  have t: "map (\<lambda>e. number_to_string (snd e) @ ''%'') sample_brain =
      [''60%'', ''40%'', ''30%'', ''70%'']"
    by (simp add: sample_brain_def unsigned_to_string_def significant_def digits_of.simps
        digit_char_def)
  from brain_entries_uniform_style [OF l, of sample_brain empty_world] p t l
  show ?thesis by auto
qed

text \<open>
  Claim C3: after every call of \<^verbatim>\<open>drawTextWithShadow\<close> the shadow colour of the surface is
  transparent and its blur is zero, hence also after the draws of a whole render; what a
  call paints does not depend on the shadow state it finds, so no draw sees the shadow
  state an earlier draw has set.
\<close>

theorem shadow_reset_after_every_draw:
  "shadow_reset (drawTextWithShadow ctx t x y fnt fill a b) \<and>
   drawn (drawTextWithShadow
       (ctx\<lparr>shadowColor := c, shadowBlur := r, shadowOffsetX := ox, shadowOffsetY := oy\<rparr>)
       t x y fnt fill a b) =
     drawn (drawTextWithShadow ctx t x y fnt fill a b) \<and>
   (data \<noteq> [] \<and> animal_surface env img data = Inr ctx' \<longrightarrow> shadow_reset ctx') \<and>
   ((\<exists>e\<in>set data. property brain_positions (fst e) \<noteq> Absent) \<longrightarrow>
      shadow_reset (brain_surface img data))"
proof -
  have "data \<noteq> [] \<and> animal_surface env img data = Inr ctx' \<longrightarrow> shadow_reset ctx'"
    by (auto simp: animal_surface_def Let_def case_prod_beta dest: animal_loop_shadow)
  moreover have "(\<exists>e\<in>set data. property brain_positions (fst e) \<noteq> Absent) \<longrightarrow>
      shadow_reset (brain_surface img data)"
    by (simp add: brain_surface_def Let_def brain_loop_shadow)
  ultimately show ?thesis
    by (simp add: shadow_reset_drawText drawn_drawText_shadow_free)
qed

theorem shadow_reset_after_every_draw_witness:
  "sample_animals \<noteq> [] \<and>
   (\<exists>e\<in>set sample_brain. property brain_positions (fst e) \<noteq> Absent) \<and>
   (\<exists>ctx'. animal_surface sample_env sample_image sample_animals = Inr ctx' \<and>
      shadow_reset ctx') \<and>
   shadow_reset (brain_surface sample_image sample_brain)"
proof -
  have n: "sample_animals \<noteq> []" by (simp add: sample_animals_def)
  have b: "\<exists>e\<in>set sample_brain. property brain_positions (fst e) \<noteq> Absent"
    by (simp add: sample_brain_def property_def brain_positions_def)
  have "\<forall>e\<in>set sample_animals. fst e \<in> fst ` set animal_positions"
    by (simp add: sample_animals_def animal_positions_def)
  from animal_surface_texts [OF this, of sample_env sample_image] obtain ctx' where
    s: "animal_surface sample_env sample_image sample_animals = Inr ctx'" by blast
  from shadow_reset_after_every_draw
    [where data = sample_animals and env = sample_env and img = sample_image and ctx' = ctx']
    n s have "shadow_reset ctx'" by blast
  moreover from shadow_reset_after_every_draw
    [where data = sample_brain and img = sample_image]
    b have "shadow_reset (brain_surface sample_image sample_brain)" by blast
  ultimately show ?thesis using n b s by blast
qed

text \<open>
  Claim C7: in the brain renderer an entry whose key has no entry in the position table
  is skipped: no text is painted for it and nothing is thrown, the entries whose key is in
  the table are painted, and the render returns the encoded image.
\<close>

theorem brain_skips_unknown_keys:
  assumes "loadImage env url = Inr img"
  shows "fst (generateBrainImage env url data w) = Inr (toDataURL env (brain_surface img data)) \<and>
         texts (brain_surface img data) = map brain_text (filter (in_table brain_positions) data)"
  using assms by (simp add: generateBrainImage_loaded brain_surface_texts)

theorem brain_skips_unknown_keys_witness:
  "loadImage sample_env BASE_IMAGE_BRAIN_URL = Inr sample_image \<and>
   fst (generateBrainImage sample_env BASE_IMAGE_BRAIN_URL stray_brain empty_world) =
     Inr (toDataURL sample_env (brain_surface sample_image stray_brain)) \<and>
   texts (brain_surface sample_image stray_brain) =
     [shadowed_text ''60%'' (320, 240) ''bold 44px sans-serif'' ''#FFFFFF'' ''center'' ''middle'',
      shadowed_text ''70%'' (600, 450) ''bold 44px sans-serif'' ''#FFFFFF'' ''right'' ''middle'']"
proof -
  have l: "loadImage sample_env BASE_IMAGE_BRAIN_URL = Inr sample_image"
    by (simp add: sample_env_def)
  have f: "map brain_text (filter (in_table brain_positions) stray_brain) =
     [shadowed_text ''60%'' (320, 240) ''bold 44px sans-serif'' ''#FFFFFF'' ''center'' ''middle'',
      shadowed_text ''70%'' (600, 450) ''bold 44px sans-serif'' ''#FFFFFF'' ''right'' ''middle'']"
    by (simp add: stray_brain_def in_table_def brain_positions_def brain_text_def
        unsigned_to_string_def significant_def digits_of.simps digit_char_def)
  from brain_skips_unknown_keys [OF l, of stray_brain empty_world] f l
  show ?thesis by simp
qed




text \<open>
  Claim C9: when every one of the four values is at most \<open>- 1\<close>, the running maximum
  stays \<open>- 1\<close> and no name is selected, so all four entries are painted with the normal
  style, bold 36px and #FFFFFF, and none with the emphasis style.
\<close>

theorem no_emphasis_at_or_below_minus_one:
  assumes "loadImage env url = Inr img"
    and "animal_profile data"
    and "\<forall>e\<in>set data. lte (snd e) (Finite (- 1) 0)"
  shows "highest_loop data (None, Finite (- 1) 0) = (None, Finite (- 1) 0) \<and>
         (\<exists>ctx. fst (generateAnimalImage env url data w) = Inr (toDataURL env ctx) \<and>
            map style (texts ctx) = map (\<lambda>e. normal_style) data)"
proof -
  from assms(3) have "\<forall>e\<in>set data. \<not> gt (snd e) (Finite (- 1) 0)"
    by (blast dest: lte_not_gt)
  then have h: "highest_loop data (None, Finite (- 1) 0) = (None, Finite (- 1) 0)"
    by (rule highest_loop_unchanged)
  from animal_surface_texts [OF animal_profile_keys [OF assms(2)], of env img] h
  obtain ctx where
    c: "animal_surface env img data = Inr ctx" "texts ctx = map (animal_text None) data"
    by auto
  have "fst (generateAnimalImage env url data w) = Inr (toDataURL env ctx)"
    using assms(1) c(1) by (rule generateAnimalImage_loaded)
  moreover have "map style (texts ctx) = map (\<lambda>e. normal_style) data"
    using c(2) by (simp add: style_animal_text)
  ultimately show ?thesis using h by blast
qed

theorem no_emphasis_at_or_below_minus_one_witness:
  "loadImage sample_env BASE_IMAGE_ANIMALS_URL = Inr sample_image \<and>
   animal_profile negative_animals \<and>
   list_all (\<lambda>e. lte (snd e) (Finite (- 1) 0)) negative_animals \<and>
   highest_loop negative_animals (None, Finite (- 1) 0) = (None, Finite (- 1) 0) \<and>
   (\<exists>ctx. fst (generateAnimalImage sample_env BASE_IMAGE_ANIMALS_URL negative_animals empty_world)
            = Inr (toDataURL sample_env ctx) \<and>
      map style (texts ctx) = [normal_style, normal_style, normal_style, normal_style])"
proof -
  have l: "loadImage sample_env BASE_IMAGE_ANIMALS_URL = Inr sample_image"
    by (simp add: sample_env_def)
  have p: "animal_profile negative_animals"
    by (simp add: animal_profile_def negative_animals_def animal_positions_def)
  have b: "\<forall>e\<in>set negative_animals. lte (snd e) (Finite (- 1) 0)"
    by (simp add: negative_animals_def mathematical_value_def)
  have m: "map (\<lambda>e. normal_style) negative_animals =
      [normal_style, normal_style, normal_style, normal_style]"
    by (simp add: negative_animals_def)
  from no_emphasis_at_or_below_minus_one [OF l p b, of empty_world] l p b m
  show ?thesis by (auto simp: list_all_iff)
qed

text \<open>
  Claim C6, as the code has it: the text painted for an entry is the value converted to a
  string by the template literal, followed by the percent sign. For a value that is an
  integer of magnitude at most \<open>2 ^ 53\<close> that string is the decimal numeral of the
  integer; for a value that is not an integer it is not the numeral of any integer: the
  program does not round.
\<close>

theorem animal_text_is_value_and_percent:
  assumes "loadImage env url = Inr img"
    and "animal_profile data"
  shows "\<exists>ctx. fst (generateAnimalImage env url data w) = Inr (toDataURL env ctx) \<and>
           map painted_text (texts ctx) = map (\<lambda>e. number_to_string (snd e) @ ''%'') data \<and>
           (\<forall>e\<in>set data. \<forall>i. is_int_value (snd e) i \<and> \<bar>i\<bar> \<le> 2 ^ 53 \<longrightarrow>
              number_to_string (snd e) = int_numeral i) \<and>
           (\<forall>e\<in>set data. (\<forall>i. \<not> is_int_value (snd e) i) \<longrightarrow>
              \<not> is_integer_text (number_to_string (snd e)))"
proof -
  from animal_surface_texts [OF animal_profile_keys [OF assms(2)], of env img]
  obtain ctx where
    c: "animal_surface env img data = Inr ctx"
       "texts ctx = map (animal_text (fst (highest_loop data (None, Finite (- 1) 0)))) data"
    by blast
  have out: "fst (generateAnimalImage env url data w) = Inr (toDataURL env ctx)"
    using assms(1) c(1) by (rule generateAnimalImage_loaded)
  have t: "map painted_text (texts ctx) = map (\<lambda>e. number_to_string (snd e) @ ''%'') data"
    using c(2) by (simp add: text_animal_text)
  have ints: "\<forall>e\<in>set data. \<forall>i. is_int_value (snd e) i \<and> \<bar>i\<bar> \<le> 2 ^ 53 \<longrightarrow>
      number_to_string (snd e) = int_numeral i"
    using int_value_text by blast
  have fracs: "\<forall>e\<in>set data. (\<forall>i. \<not> is_int_value (snd e) i) \<longrightarrow>
      \<not> is_integer_text (number_to_string (snd e))"
    using not_int_value_text by blast
  from out t ints fracs show ?thesis by (intro exI [of _ ctx] conjI)
qed

theorem animal_text_is_value_and_percent_witness:
  "loadImage sample_env BASE_IMAGE_ANIMALS_URL = Inr sample_image \<and>
   animal_profile fractional_animals \<and>
   (\<exists>ctx. fst (generateAnimalImage sample_env BASE_IMAGE_ANIMALS_URL fractional_animals
              empty_world) = Inr (toDataURL sample_env ctx) \<and>
      map painted_text (texts ctx) = [''12.5%'', ''55%'', ''20%'', ''12.5%'']) \<and>
   is_int_value (Finite 55 0) 55 \<and> \<bar>55\<bar> \<le> (2 ^ 53 :: int) \<and>
   number_to_string (Finite 55 0) = int_numeral 55 \<and>
   \<not> is_integer_text (number_to_string (Finite 125 (- 1)))"
proof -
  have l: "loadImage sample_env BASE_IMAGE_ANIMALS_URL = Inr sample_image"
    by (simp add: sample_env_def)
  have p: "animal_profile fractional_animals"
    by (simp add: animal_profile_def fractional_animals_def animal_positions_def)
  have t: "map (\<lambda>e. number_to_string (snd e) @ ''%'') fractional_animals =
      [''12.5%'', ''55%'', ''20%'', ''12.5%'']"
    by (simp add: fractional_animals_def unsigned_to_string_def significant_def digits_of.simps
        digit_char_def)
  have a: "(''aguia'', Finite 55 0) \<in> set fractional_animals"
    and b: "(''lobo'', Finite 125 (- 1)) \<in> set fractional_animals"
    by (simp_all add: fractional_animals_def)
  have v: "is_int_value (Finite 55 0) 55"
    by (simp add: is_int_value_def mathematical_value_def)
  have s: "\<bar>55\<bar> \<le> (2 ^ 53 :: int)" by simp
  have n: "\<forall>i. \<not> is_int_value (Finite 125 (- 1)) i"
  proof (intro allI notI)
    fix i assume "is_int_value (Finite 125 (- 1)) i"
    then have "mathematical_value 125 (- 1) = of_int i" by (simp add: is_int_value_def)
    from integer_value_cases [OF this] have "(125 :: int) = i * 10" by simp
    then show False by presburger
  qed
  from animal_text_is_value_and_percent [OF l p, of empty_world] obtain ctx where
    c: "fst (generateAnimalImage sample_env BASE_IMAGE_ANIMALS_URL fractional_animals empty_world)
          = Inr (toDataURL sample_env ctx)"
       "map painted_text (texts ctx) =
          map (\<lambda>e. number_to_string (snd e) @ ''%'') fractional_animals"
       "\<forall>e\<in>set fractional_animals. \<forall>i. is_int_value (snd e) i \<and> \<bar>i\<bar> \<le> 2 ^ 53 \<longrightarrow>
          number_to_string (snd e) = int_numeral i"
       "\<forall>e\<in>set fractional_animals. (\<forall>i. \<not> is_int_value (snd e) i) \<longrightarrow>
          \<not> is_integer_text (number_to_string (snd e))"
    by blast
  from c(3) a v s have i: "number_to_string (Finite 55 0) = int_numeral 55" by fastforce
  from c(4) b n have f: "\<not> is_integer_text (number_to_string (Finite 125 (- 1)))" by fastforce
  from c(1,2) t have "\<exists>ctx.
      fst (generateAnimalImage sample_env BASE_IMAGE_ANIMALS_URL fractional_animals empty_world)
        = Inr (toDataURL sample_env ctx) \<and>
      map painted_text (texts ctx) = [''12.5%'', ''55%'', ''20%'', ''12.5%'']"
    by (intro exI [of _ ctx] conjI) simp_all
  with l p v s i f show ?thesis by (simp only: simp_thms)
qed

text \<open>
  Claim C6 as stated fails on a value that is not an integer: \<open>12.5\<close> is painted as
  \<open>12.5%\<close>, and \<open>12.5\<close> is not the numeral of an integer.
\<close>

theorem fraction_is_painted_unrounded:
  "animal_profile fractional_animals \<and>
   map painted_text (animal_texts sample_env sample_image fractional_animals) =
     [''12.5%'', ''55%'', ''20%'', ''12.5%''] \<and>
   \<not> is_integer_text ''12.5''"
proof -
  have k: "\<forall>e\<in>set fractional_animals. fst e \<in> fst ` set animal_positions"
    by (simp add: fractional_animals_def animal_positions_def)
  have t: "map painted_text (animal_texts sample_env sample_image fractional_animals) =
     [''12.5%'', ''55%'', ''20%'', ''12.5%'']"
    unfolding animal_texts_eq [OF k]
    by (simp add: fractional_animals_def text_animal_text unsigned_to_string_def
        significant_def digits_of.simps digit_char_def)
  have p: "animal_profile fractional_animals"
    by (simp add: animal_profile_def fractional_animals_def animal_positions_def)
  have n: "\<not> is_integer_text ''12.5''"
    by (simp add: is_integer_text_def)
  from p t n show ?thesis by blast
qed

text \<open>
  The validation on a body that can be destructured (it is neither undefined nor null):
  when it lacks the animalData field or the brainData field, the handler returns status
  400 with exactly the error message of the validation, and neither renderer is invoked:
  no image load is started and nothing is logged.
\<close>

theorem missing_dataset_is_bad_request:
  assumes \<open>req_method req = ''POST''\<close>
    and \<open>req_body req = Body animalData brainData\<close>
    and \<open>animalData = Missing \<or> brainData = Missing\<close>
  shows \<open>handler env req w =
           (\<lparr>status = 400,
             json = [(''error'',
               ''Request body must contain "animalData" and "brainData" objects.'')]\<rparr>, w) \<and>
         requested (snd (handler env req w)) = requested w\<close>
  using assms by (auto simp: handler_def handler_try_def split: payload.splits)

theorem missing_dataset_is_bad_request_witness:
  \<open>req_method missing_brain_request = ''POST'' \<and>
   req_body missing_brain_request = Body (Entries sample_animals) Missing \<and>
   handler sample_env missing_brain_request empty_world =
     (\<lparr>status = 400,
       json = [(''error'',
         ''Request body must contain "animalData" and "brainData" objects.'')]\<rparr>, empty_world) \<and>
   requested (snd (handler sample_env missing_brain_request empty_world)) = []\<close>
proof -
  have m: "req_method missing_brain_request = ''POST''"
    by (simp add: missing_brain_request_def)
  have b: "req_body missing_brain_request = Body (Entries sample_animals) Missing"
    by (simp add: missing_brain_request_def)
  have d: "Entries sample_animals = Missing \<or> (Missing :: payload) = Missing" by simp
  from missing_dataset_is_bad_request [OF m b d, of sample_env empty_world] m b
  show ?thesis by (simp add: empty_world_def)
qed

text \<open>
  Claim C5: a POST request whose body lacks the animalData field or the brainData field
  is to be answered with status 400 and the error message of the validation, without
  invoking a renderer. The handler destructures the body before it validates, so for a
  body that is null, which has neither field, it answers from the failure branch:
  status 500 and the error Failed to generate images, with no renderer invoked.
\<close>

theorem null_body_is_not_bad_request:
  "req_method null_body_request = ''POST'' \<and>
   req_body null_body_request = BodyNull \<and>
   status (fst (handler sample_env null_body_request empty_world)) = 500 \<and>
   map_of (json (fst (handler sample_env null_body_request empty_world))) ''error'' =
     Some ''Failed to generate images.'' \<and>
   requested (snd (handler sample_env null_body_request empty_world)) = []"
  by (simp add: null_body_request_def handler_def handler_try_def empty_world_def)

text \<open>
  Claim C10: for a POST request without a body (undefined or null) the destructuring
  throws inside the try block and the handler answers with status 500 and the error
  Failed to generate images; status 400 is returned only for a body that can be
  destructured and whose animalData or brainData is absent or falsy.
\<close>

theorem missing_body_is_server_error:
  assumes "req_method req = ''POST''"
  shows "(req_body req = BodyUndefined \<or> req_body req = BodyNull \<longrightarrow>
            handler env req w =
              (\<lparr>status = 500,
                json = [(''error'', ''Failed to generate images.''),
                        (''details'', typeErrorMessage env ''req.body'')]\<rparr>,
               w\<lparr>console := console w @
                  [(''Image generation failed:'', ErrorObj (typeErrorMessage env ''req.body''))]\<rparr>)) \<and>
         (status (fst (handler env req w)) = 400 \<longleftrightarrow>
            (\<exists>a b. req_body req = Body a b \<and> (\<not> truthy a \<or> \<not> truthy b)))"
proof -
  have first: "req_body req = BodyUndefined \<or> req_body req = BodyNull \<longrightarrow>
      handler env req w =
        (\<lparr>status = 500,
          json = [(''error'', ''Failed to generate images.''),
                  (''details'', typeErrorMessage env ''req.body'')]\<rparr>,
         w\<lparr>console := console w @
            [(''Image generation failed:'', ErrorObj (typeErrorMessage env ''req.body''))]\<rparr>)"
    using assms by (auto simp: handler_def handler_try_def)
  have second: "status (fst (handler env req w)) = 400 \<longleftrightarrow>
      (\<exists>a b. req_body req = Body a b \<and> (\<not> truthy a \<or> \<not> truthy b))"
  proof (cases "req_body req")
    case BodyUndefined
    with assms show ?thesis by (simp add: handler_def handler_try_def)
  next
    case BodyNull
    with assms show ?thesis by (simp add: handler_def handler_try_def)
  next
    case (Body a b)
    show ?thesis
    proof (cases "truthy a \<and> truthy b")
      case False
      with Body assms show ?thesis
        by (cases a; cases b) (auto simp: handler_def handler_try_def)
    next
      case True
      then obtain ae be where ab: "a = Entries ae" "b = Entries be"
        by (cases a; cases b) auto
      have "status (fst (handler env req w)) \<noteq> 400"
        using Body ab assms
        by (auto simp: handler_def handler_try_def Let_def split: prod.splits sum.splits)
      with Body True show ?thesis by simp
    qed
  qed
  from first second show ?thesis by blast
qed

theorem missing_body_is_server_error_witness:
  "req_method null_body_request = ''POST'' \<and>
   req_body null_body_request = BodyNull \<and>
   handler sample_env null_body_request empty_world =
     (\<lparr>status = 500,
       json = [(''error'', ''Failed to generate images.''),
               (''details'', typeErrorMessage sample_env ''req.body'')]\<rparr>,
      empty_world\<lparr>console := console empty_world @
         [(''Image generation failed:'', ErrorObj (typeErrorMessage sample_env ''req.body''))]\<rparr>) \<and>
   status (fst (handler sample_env null_body_request empty_world)) \<noteq> 400"
proof -
  have m: "req_method null_body_request = ''POST''" by (simp add: null_body_request_def)
  have b: "req_body null_body_request = BodyNull" by (simp add: null_body_request_def)
  from missing_body_is_server_error [OF m, of sample_env empty_world] m b
  show ?thesis by simp
qed

text \<open>
  Claim C4, as the code has it: for every POST request with both datasets in which the
  brain base image fails to load, the response has status 500 and its body has the fields
  error and details only, so neither image field. When the animal render succeeds, or
  fails without rejecting first, details is Error during brain image processing followed
  by the underlying message; when the animal render rejects first, details is the message
  of its rejection. A failure inside the animal renderer, of the load or of the drawing,
  is rejected as an Error whose message is Error during animal image processing followed
  by the underlying message.
\<close>

theorem brain_load_failure_is_server_error:
  assumes "req_method req = ''POST''"
    and "req_body req = Body (Entries animalEntries) (Entries brainEntries)"
    and "loadImage env BASE_IMAGE_BRAIN_URL = Inl err"
  shows "status (fst (handler env req w)) = 500 \<and>
         map fst (json (fst (handler env req w))) = [''error'', ''details''] \<and>
         (\<forall>animalImage.
            fst (generateAnimalImage env BASE_IMAGE_ANIMALS_URL animalEntries w) = Inr animalImage \<longrightarrow>
            json (fst (handler env req w)) =
              [(''error'', ''Failed to generate images.''),
               (''details'', ''Error during brain image processing: '' @ thrown_message err)]) \<and>
         (\<forall>e. fst (generateAnimalImage env BASE_IMAGE_ANIMALS_URL animalEntries w) = Inl e \<longrightarrow>
            json (fst (handler env req w)) =
              [(''error'', ''Failed to generate images.''),
               (''details'',
                if animalRejectsFirst env then thrown_message e
                else ''Error during brain image processing: '' @ thrown_message err)]) \<and>
         (\<forall>cause. loadImage env BASE_IMAGE_ANIMALS_URL = Inl cause \<longrightarrow>
            fst (generateAnimalImage env BASE_IMAGE_ANIMALS_URL animalEntries w) =
              Inl (ErrorObj (''Error during animal image processing: '' @ thrown_message cause))) \<and>
         (\<forall>img cause. loadImage env BASE_IMAGE_ANIMALS_URL = Inr img \<and>
            animal_surface env img animalEntries = Inl cause \<longrightarrow>
            fst (generateAnimalImage env BASE_IMAGE_ANIMALS_URL animalEntries w) =
              Inl (ErrorObj (''Error during animal image processing: '' @ thrown_message cause)))"
proof -
  let ?a = "generateAnimalImage env BASE_IMAGE_ANIMALS_URL animalEntries w"
  let ?msg = "''Error during brain image processing: '' @ thrown_message err"
  obtain ra wa where a: "?a = (ra, wa)" by (cases ?a)
  have b: "generateBrainImage env BASE_IMAGE_BRAIN_URL brainEntries wa =
      (Inl (ErrorObj ?msg), wa\<lparr>requested := requested wa @ [BASE_IMAGE_BRAIN_URL]\<rparr>)"
    using assms(3) by (rule generateBrainImage_failed)
  have load: "\<forall>cause. loadImage env BASE_IMAGE_ANIMALS_URL = Inl cause \<longrightarrow>
      fst ?a = Inl (ErrorObj (''Error during animal image processing: '' @ thrown_message cause))"
    by (simp add: generateAnimalImage_failed)
  have draw: "\<forall>img cause. loadImage env BASE_IMAGE_ANIMALS_URL = Inr img \<and>
      animal_surface env img animalEntries = Inl cause \<longrightarrow>
      fst ?a = Inl (ErrorObj (''Error during animal image processing: '' @ thrown_message cause))"
    by (simp add: generateAnimalImage_surface_failed)
  have main: "status (fst (handler env req w)) = 500 \<and>
      map fst (json (fst (handler env req w))) = [''error'', ''details''] \<and>
      (\<forall>animalImage. ra = Inr animalImage \<longrightarrow>
         json (fst (handler env req w)) =
           [(''error'', ''Failed to generate images.''), (''details'', ?msg)]) \<and>
      (\<forall>e. ra = Inl e \<longrightarrow>
         json (fst (handler env req w)) =
           [(''error'', ''Failed to generate images.''),
            (''details'', if animalRejectsFirst env then thrown_message e else ?msg)])"
  proof (cases ra)
    case (Inr animalImage)
    with assms(1,2) a b show ?thesis
      by (simp add: handler_def handler_try_def)
  next
    case (Inl e)
    with a generateAnimalImage_wraps [of env BASE_IMAGE_ANIMALS_URL animalEntries w e]
    obtain cause where
      e: "e = ErrorObj (''Error during animal image processing: '' @ thrown_message cause)"
      by auto
    with Inl assms(1,2) a b show ?thesis
      by (simp add: handler_def handler_try_def)
  qed
  from main a load draw show ?thesis by simp
qed

theorem brain_load_failure_is_server_error_witness:
  "req_method sample_request = ''POST'' \<and>
   req_body sample_request = Body (Entries sample_animals) (Entries sample_brain) \<and>
   loadImage brain_offline_env BASE_IMAGE_BRAIN_URL = Inl (ErrorObj ''Server responded with 404'') \<and>
   status (fst (handler brain_offline_env sample_request empty_world)) = 500 \<and>
   json (fst (handler brain_offline_env sample_request empty_world)) =
     [(''error'', ''Failed to generate images.''),
      (''details'', ''Error during brain image processing: Server responded with 404'')] \<and>
   loadImage offline_env BASE_IMAGE_BRAIN_URL = Inl (ErrorObj ''Server responded with 404'') \<and>
   loadImage offline_env BASE_IMAGE_ANIMALS_URL = Inl (ErrorObj ''Server responded with 404'') \<and>
   animalRejectsFirst offline_env \<and>
   status (fst (handler offline_env sample_request empty_world)) = 500 \<and>
   json (fst (handler offline_env sample_request empty_world)) =
     [(''error'', ''Failed to generate images.''),
      (''details'', ''Error during animal image processing: Server responded with 404'')]"
proof -
  have m: "req_method sample_request = ''POST''" by (simp add: sample_request_def)
  have b: "req_body sample_request = Body (Entries sample_animals) (Entries sample_brain)"
    by (simp add: sample_request_def)
  have l: "loadImage brain_offline_env BASE_IMAGE_BRAIN_URL =
      Inl (ErrorObj ''Server responded with 404'')"
    by (simp add: brain_offline_env_def)
  have la: "loadImage brain_offline_env BASE_IMAGE_ANIMALS_URL = Inr sample_image"
    by (simp add: brain_offline_env_def BASE_IMAGE_ANIMALS_URL_def BASE_IMAGE_BRAIN_URL_def)
  have "\<forall>e\<in>set sample_animals. fst e \<in> fst ` set animal_positions"
    by (simp add: sample_animals_def animal_positions_def)
  from animal_surface_texts [OF this, of brain_offline_env sample_image] obtain ctx where
    "animal_surface brain_offline_env sample_image sample_animals = Inr ctx" by blast
  with la have ok: "fst (generateAnimalImage brain_offline_env BASE_IMAGE_ANIMALS_URL
      sample_animals empty_world) = Inr (toDataURL brain_offline_env ctx)"
    by (rule generateAnimalImage_loaded)
  from brain_load_failure_is_server_error [OF m b l, of empty_world] ok
  have first: "status (fst (handler brain_offline_env sample_request empty_world)) = 500 \<and>
      json (fst (handler brain_offline_env sample_request empty_world)) =
        [(''error'', ''Failed to generate images.''),
         (''details'', ''Error during brain image processing: Server responded with 404'')]"
    by simp
  have l': "loadImage offline_env BASE_IMAGE_BRAIN_URL = Inl (ErrorObj ''Server responded with 404'')"
    and la': "loadImage offline_env BASE_IMAGE_ANIMALS_URL = Inl (ErrorObj ''Server responded with 404'')"
    and r: "animalRejectsFirst offline_env"
    by (simp_all add: offline_env_def sample_env_def)
  note t = brain_load_failure_is_server_error [OF m b l', of empty_world]
  from t la' have "fst (generateAnimalImage offline_env BASE_IMAGE_ANIMALS_URL sample_animals
      empty_world) = Inl (ErrorObj (''Error during animal image processing: '' @
        thrown_message (ErrorObj ''Server responded with 404'')))"
    by blast
  with t r have second: "status (fst (handler offline_env sample_request empty_world)) = 500 \<and>
      json (fst (handler offline_env sample_request empty_world)) =
        [(''error'', ''Failed to generate images.''),
         (''details'', ''Error during animal image processing: Server responded with 404'')]"
    by simp
  from m b l first l' la' r second show ?thesis by (simp only: simp_thms)
qed

text \<open>
  Claim C4 as stated fails when the animal render fails too and rejects first: with both
  base images answering 404, the details of the response name the animal image
  processing, not the brain image processing.
\<close>

theorem earlier_animal_failure_is_reported:
  "req_method sample_request = ''POST'' \<and>
   req_body sample_request = Body (Entries sample_animals) (Entries sample_brain) \<and>
   loadImage offline_env BASE_IMAGE_BRAIN_URL = Inl (ErrorObj ''Server responded with 404'') \<and>
   json (fst (handler offline_env sample_request empty_world)) =
     [(''error'', ''Failed to generate images.''),
      (''details'', ''Error during animal image processing: Server responded with 404'')]"
  by (simp add: sample_request_def offline_env_def sample_env_def handler_def handler_try_def
      generateAnimalImage_failed generateBrainImage_failed)

end
